theory Spec2Isabelle
  imports Main
begin

section \<open>Python strings\<close>

text \<open>
  A Python \<open>str\<close> is a sequence of Unicode code points, so a string is modelled as a
  list of code points (natural numbers) and \<open>len\<close> is \<open>length\<close>. The function
  \<open>str\<close> reads an ASCII literal.
\<close>

type_synonym pystr = "nat list"

definition str :: "string \<Rightarrow> pystr" where
  "str s = map of_char s"

subsection \<open>\<open>str.rstrip\<close>\<close>

text \<open>
  \<open>s.rstrip(chars)\<close> removes from the end of \<open>s\<close> every character that occurs in
  \<open>chars\<close>, stopping at the first character that does not.
\<close>

definition rstrip :: "pystr \<Rightarrow> pystr \<Rightarrow> pystr" where
  "rstrip s chars = rev (dropWhile (\<lambda>c. c \<in> set chars) (rev s))"

subsection \<open>\<open>os.sep\<close> and \<open>os.path.basename\<close> (POSIX)\<close>

text \<open>
  On POSIX systems \<open>os.sep\<close> is the slash and \<open>os.path\<close> is \<open>posixpath\<close>, whose
  \<open>basename\<close> is
  \<^verbatim>\<open>
  def basename(p):
      sep = _get_sep(p)        # '/'
      i = p.rfind(sep) + 1
      return p[i:]
  \<close>
  \<open>rfind\<close> returns the highest index at which the character occurs, or \<open>-1\<close>.
\<close>

definition os_sep :: pystr where
  "os_sep = [47]"

fun rfind :: "pystr \<Rightarrow> nat \<Rightarrow> int" where
  "rfind [] c = - 1"
| "rfind (x # xs) c =
     (let r = rfind xs c
      in if 0 \<le> r then r + 1 else if x = c then 0 else - 1)"

definition basename :: "pystr \<Rightarrow> pystr" where
  "basename p = (let i = rfind p 47 + 1 in drop (nat i) p)"

subsection \<open>\<open>re.sub\<close> with the pattern \<open>\\W\<close>\<close>

text \<open>
  For a \<open>str\<close> pattern, \<open>\\w\<close> matches the underscore and every code point that the
  Unicode database classifies as alphanumeric (\<open>str.isalnum\<close>); \<open>\\W\<close> matches every
  other code point. Below 128 the alphanumerics are the ASCII letters and digits. The
  classification of the code points from 128 on is a table of the Python runtime; it
  is the parameter \<open>uni\<close> of the model.
\<close>

definition ascii_alnum :: "nat \<Rightarrow> bool" where
  "ascii_alnum c = ((48 \<le> c \<and> c \<le> 57) \<or> (65 \<le> c \<and> c \<le> 90) \<or> (97 \<le> c \<and> c \<le> 122))"

definition ascii_word :: "nat \<Rightarrow> bool" where
  "ascii_word c = (ascii_alnum c \<or> c = 95)"

definition is_alnum :: "(nat \<Rightarrow> bool) \<Rightarrow> nat \<Rightarrow> bool" where
  "is_alnum uni c = (if c < 128 then ascii_alnum c else uni c)"

definition is_word :: "(nat \<Rightarrow> bool) \<Rightarrow> nat \<Rightarrow> bool" where
  "is_word uni c = (is_alnum uni c \<or> c = 95)"

text \<open>
  The pattern \<open>\\W\<close> matches exactly one character, so \<open>re.sub('\\W', repl, s)\<close> scans
  \<open>s\<close> from the left and puts \<open>repl\<close> in the place of each non-word character.
\<close>

fun re_sub_W :: "(nat \<Rightarrow> bool) \<Rightarrow> pystr \<Rightarrow> pystr \<Rightarrow> pystr" where
  "re_sub_W uni repl [] = []"
| "re_sub_W uni repl (c # cs) =
     (if is_word uni c then c # re_sub_W uni repl cs else repl @ re_sub_W uni repl cs)"

text \<open>
  The alphanumeric code points of the Latin-1 Supplement block (U+0080 to U+00FF) in
  the Unicode database: the two ordinal indicators, the micro sign, the superscript
  digits, the vulgar fractions and the letters. It instantiates \<open>uni\<close> where a
  statement is evaluated on a concrete string of code points below 256.
\<close>

definition latin1_alnum :: "nat \<Rightarrow> bool" where
  "latin1_alnum c =
     (c \<in> {170, 178, 179, 181, 185, 186, 188, 189, 190}
      \<or> (192 \<le> c \<and> c \<le> 214) \<or> (216 \<le> c \<and> c \<le> 246) \<or> (248 \<le> c \<and> c \<le> 255))"

section \<open>Name derivation\<close>

text \<open>
  \<^verbatim>\<open>
  def _name_from_path(path: str) -> str:
    return re.sub('\\W', '_', os.path.basename(path.rstrip(os.sep)))
  \<close>
\<close>

definition name_from_path :: "(nat \<Rightarrow> bool) \<Rightarrow> pystr \<Rightarrow> pystr" where
  "name_from_path uni path = re_sub_W uni [95] (basename (rstrip path os_sep))"

text \<open>
  The contract in the words of the specification, for comparison with the code:
  strip the trailing separators, keep what follows the last remaining separator, then
  rewrite the characters that are not word characters. \<open>final_component\<close> is the first
  two steps; \<open>collapse_runs\<close> is the third step as the specification words it, one
  underscore for each maximal run (\<open>inrun\<close> tells that the previous character was
  already part of a run).
\<close>

definition strip_trailing_sep :: "pystr \<Rightarrow> pystr" where
  "strip_trailing_sep p = rev (dropWhile (\<lambda>c. c = 47) (rev p))"

definition final_component :: "pystr \<Rightarrow> pystr" where
  "final_component p = rev (takeWhile (\<lambda>c. c \<noteq> 47) (rev (strip_trailing_sep p)))"

fun collapse_runs :: "(nat \<Rightarrow> bool) \<Rightarrow> bool \<Rightarrow> pystr \<Rightarrow> pystr" where
  "collapse_runs uni inrun [] = []"
| "collapse_runs uni inrun (c # cs) =
     (if is_word uni c then c # collapse_runs uni False cs
      else if inrun then collapse_runs uni True cs
      else 95 # collapse_runs uni True cs)"

definition spec_derive_name :: "(nat \<Rightarrow> bool) \<Rightarrow> pystr \<Rightarrow> pystr" where
  "spec_derive_name uni p = collapse_runs uni False (final_component p)"

section \<open>Entry points\<close>

text \<open>
  \<^verbatim>\<open>
  class ModuleName(NamedTuple):
    module_name: str

  class CommandList(NamedTuple):
    commands: List[str]
  \<close>
  The annotation \<open>Union[ModuleName, CommandList]\<close> of an entry point is the datatype
  of the two.
\<close>

datatype entrypoint = ModuleName pystr | CommandList "pystr list"

section \<open>Executable specifications\<close>

text \<open>
  The five classes derived from \<open>core.ExecutableSpec\<close>, with the attributes that the
  class bodies declare, in their order. The \<open>dependencies\<close> of \<open>Binary\<close> and
  \<open>BazelBinary\<close> is a Python list, a mutable object that several holders can share:
  the attribute holds a reference into the store below. \<open>Optional[T]\<close> is an option.
\<close>

type_synonym ref = nat

datatype spec =
    PythonContainer entrypoint pystr "pystr option" "pystr list option"
  | Container pystr
  | Binary pystr ref
  | BazelContainer pystr
  | BazelBinary pystr ref

text \<open>The property \<open>name\<close> of each class.\<close>

fun name :: "(nat \<Rightarrow> bool) \<Rightarrow> spec \<Rightarrow> pystr" where
  "name uni (PythonContainer entrypoint path base_image docker_instructions) =
     name_from_path uni path"
| "name uni (Container image_path) = name_from_path uni image_path"
| "name uni (Binary path dependencies) = name_from_path uni path"
| "name uni (BazelContainer label) = name_from_path uni label"
| "name uni (BazelBinary label dependencies) = name_from_path uni label"

subsection \<open>The store\<close>

text \<open>
  The store holds the list objects and the instances created so far; a reference is
  an index, and nothing is ever removed. \<open>'d\<close> is the type of the values that
  implement \<open>BinaryDependency\<close>, an abstract class with no members.
\<close>

record 'd heap =
  lists :: "'d list list"
  objects :: "spec list"

definition empty_heap :: "'d heap" where
  "empty_heap = \<lparr>lists = [], objects = []\<rparr>"

definition get_list :: "'d heap \<Rightarrow> ref \<Rightarrow> 'd list option" where
  "get_list h r = (if r < length (lists h) then Some (lists h ! r) else None)"

definition get_obj :: "'d heap \<Rightarrow> ref \<Rightarrow> spec option" where
  "get_obj h a = (if a < length (objects h) then Some (objects h ! a) else None)"

text \<open>\<open>list()\<close>: a new, empty list object.\<close>

definition new_list :: "'d heap \<Rightarrow> ref \<times> 'd heap" where
  "new_list h = (length (lists h), h\<lparr>lists := lists h @ [[]]\<rparr>)"

text \<open>
  The errors: \<open>TypeError\<close> is what a call raises when a required argument is not
  given, \<open>FrozenInstanceError\<close> is what a frozen \<open>attrs\<close> class raises on assignment.
  \<open>InvalidReference\<close> is not a Python error: it is the result of the model on a
  reference that the store does not hold, which no Python program can form.
\<close>

datatype error = TypeError | FrozenInstanceError | InvalidReference

text \<open>\<open>xs.append(d)\<close>, on the list object that \<open>r\<close> refers to.\<close>

definition list_append :: "ref \<Rightarrow> 'd \<Rightarrow> 'd heap \<Rightarrow> error + 'd heap" where
  "list_append r d h =
     (if r < length (lists h)
      then Inr (h\<lparr>lists := (lists h)[r := lists h ! r @ [d]]\<rparr>)
      else Inl InvalidReference)"

subsection \<open>Construction\<close>

text \<open>
  Every class is decorated with \<open>@attr.s(auto_attribs=True)\<close>, which generates an
  \<open>__init__\<close> with one parameter for each annotated attribute. An attribute with no
  default is a required parameter, and a call that does not give it raises
  \<open>TypeError\<close> before the body runs. An argument of a generated \<open>__init__\<close> is an
  option here: \<open>None\<close> when the call does not give it, \<open>Some v\<close> when it gives \<open>v\<close>.

  \<^verbatim>\<open>
  entrypoint: Union[ModuleName, CommandList]
  path: str = attr.ib(converter=utils.get_absolute_path, default='.')
  base_image: Optional[str] = None
  docker_instructions: Optional[List[str]] = None
  \<close>
  The converter is applied to the value of \<open>path\<close>, given or default.
  \<open>utils.get_absolute_path\<close> is the parameter \<open>get_absolute_path\<close>.
\<close>

definition PythonContainer_init ::
  "(pystr \<Rightarrow> pystr) \<Rightarrow> entrypoint option \<Rightarrow> pystr option \<Rightarrow> pystr option option \<Rightarrow>
     pystr list option option \<Rightarrow> 'd heap \<Rightarrow> error + spec \<times> 'd heap" where
  "PythonContainer_init get_absolute_path entrypoint path base_image docker_instructions h =
     (case entrypoint of
        None \<Rightarrow> Inl TypeError
      | Some e \<Rightarrow>
          Inr (PythonContainer e
                 (get_absolute_path (case path of None \<Rightarrow> str ''.'' | Some p \<Rightarrow> p))
                 (case base_image of None \<Rightarrow> None | Some b \<Rightarrow> b)
                 (case docker_instructions of None \<Rightarrow> None | Some d \<Rightarrow> d), h))"

text \<open>\<^verbatim>\<open>image_path: str\<close>\<close>

definition Container_init :: "pystr option \<Rightarrow> 'd heap \<Rightarrow> error + spec \<times> 'd heap" where
  "Container_init image_path h =
     (case image_path of None \<Rightarrow> Inl TypeError | Some p \<Rightarrow> Inr (Container p, h))"

text \<open>
  \<^verbatim>\<open>
  path: str
  dependencies: List[BinaryDependency] = attr.Factory(list)
  \<close>
  \<open>attr.Factory(list)\<close> calls \<open>list()\<close> in each \<open>__init__\<close> that is not given the
  argument. A list that the caller gives is stored as it is, by reference.
\<close>

definition Binary_init ::
  "pystr option \<Rightarrow> ref option \<Rightarrow> 'd heap \<Rightarrow> error + spec \<times> 'd heap" where
  "Binary_init path dependencies h =
     (case path of
        None \<Rightarrow> Inl TypeError
      | Some p \<Rightarrow>
          (case dependencies of
             Some r \<Rightarrow> Inr (Binary p r, h)
           | None \<Rightarrow> (let (r, h') = new_list h in Inr (Binary p r, h'))))"

text \<open>\<^verbatim>\<open>label: str\<close>\<close>

definition BazelContainer_init :: "pystr option \<Rightarrow> 'd heap \<Rightarrow> error + spec \<times> 'd heap" where
  "BazelContainer_init label h =
     (case label of None \<Rightarrow> Inl TypeError | Some l \<Rightarrow> Inr (BazelContainer l, h))"

text \<open>
  \<^verbatim>\<open>
  label: str
  dependencies: List[BinaryDependency] = attr.Factory(list)
  \<close>
\<close>

definition BazelBinary_init ::
  "pystr option \<Rightarrow> ref option \<Rightarrow> 'd heap \<Rightarrow> error + spec \<times> 'd heap" where
  "BazelBinary_init label dependencies h =
     (case label of
        None \<Rightarrow> Inl TypeError
      | Some l \<Rightarrow>
          (case dependencies of
             Some r \<Rightarrow> Inr (BazelBinary l r, h)
           | None \<Rightarrow> (let (r, h') = new_list h in Inr (BazelBinary l r, h'))))"

text \<open>
  A call of a class runs its \<open>__init__\<close>; when that raises, the exception reaches the
  caller and no instance is returned, otherwise the new instance is in the store and
  the caller has its reference.
\<close>

definition instantiate ::
  "('d heap \<Rightarrow> error + spec \<times> 'd heap) \<Rightarrow> 'd heap \<Rightarrow> error + ref \<times> 'd heap" where
  "instantiate init h =
     (case init h of
        Inl e \<Rightarrow> Inl e
      | Inr (s, h') \<Rightarrow> Inr (length (objects h'), h'\<lparr>objects := objects h' @ [s]\<rparr>))"

definition new_PythonContainer ::
  "(pystr \<Rightarrow> pystr) \<Rightarrow> entrypoint option \<Rightarrow> pystr option \<Rightarrow> pystr option option \<Rightarrow>
     pystr list option option \<Rightarrow> 'd heap \<Rightarrow> error + ref \<times> 'd heap" where
  "new_PythonContainer get_absolute_path entrypoint path base_image docker_instructions =
     instantiate
       (PythonContainer_init get_absolute_path entrypoint path base_image docker_instructions)"

definition new_Container :: "pystr option \<Rightarrow> 'd heap \<Rightarrow> error + ref \<times> 'd heap" where
  "new_Container image_path = instantiate (Container_init image_path)"

definition new_Binary ::
  "pystr option \<Rightarrow> ref option \<Rightarrow> 'd heap \<Rightarrow> error + ref \<times> 'd heap" where
  "new_Binary path dependencies = instantiate (Binary_init path dependencies)"

definition new_BazelContainer :: "pystr option \<Rightarrow> 'd heap \<Rightarrow> error + ref \<times> 'd heap" where
  "new_BazelContainer label = instantiate (BazelContainer_init label)"

definition new_BazelBinary ::
  "pystr option \<Rightarrow> ref option \<Rightarrow> 'd heap \<Rightarrow> error + ref \<times> 'd heap" where
  "new_BazelBinary label dependencies = instantiate (BazelBinary_init label dependencies)"

subsection \<open>Reading and assigning attributes\<close>

text \<open>
  Reading \<open>x.name\<close> runs the property of the class of \<open>x\<close>; the store is returned
  with the value, as it is after the read.
\<close>

definition read_name :: "(nat \<Rightarrow> bool) \<Rightarrow> ref \<Rightarrow> 'd heap \<Rightarrow> error + pystr \<times> 'd heap" where
  "read_name uni a h =
     (case get_obj h a of None \<Rightarrow> Inl InvalidReference | Some s \<Rightarrow> Inr (name uni s, h))"

text \<open>
  The options of \<open>attr.s\<close> that matter here. \<open>frozen\<close> is \<open>False\<close> unless the decorator
  is given \<open>frozen=True\<close>; each of the five decorators is \<open>@attr.s(auto_attribs=True)\<close>.
\<close>

record attrs_options =
  auto_attribs :: bool
  frozen :: bool

definition attr_s :: "bool \<Rightarrow> attrs_options" where
  "attr_s aa = \<lparr>auto_attribs = aa, frozen = False\<rparr>"

fun class_options :: "spec \<Rightarrow> attrs_options" where
  "class_options (PythonContainer entrypoint path base_image docker_instructions) = attr_s True"
| "class_options (Container image_path) = attr_s True"
| "class_options (Binary path dependencies) = attr_s True"
| "class_options (BazelContainer label) = attr_s True"
| "class_options (BazelBinary label dependencies) = attr_s True"

text \<open>
  An assignment \<open>x.attr = v\<close> to one of the declared attributes. On an instance whose
  class does not declare the attribute, the assignment adds an entry to the dictionary
  of the instance and leaves the declared attributes as they are. \<open>attr.s\<close> runs no
  converter on assignment.
\<close>

datatype assignment =
    Set_entrypoint entrypoint
  | Set_path pystr
  | Set_base_image "pystr option"
  | Set_docker_instructions "pystr list option"
  | Set_image_path pystr
  | Set_dependencies ref
  | Set_label pystr

fun assign :: "spec \<Rightarrow> assignment \<Rightarrow> spec" where
  "assign (PythonContainer e p b d) (Set_entrypoint v) = PythonContainer v p b d"
| "assign (PythonContainer e p b d) (Set_path v) = PythonContainer e v b d"
| "assign (PythonContainer e p b d) (Set_base_image v) = PythonContainer e p v d"
| "assign (PythonContainer e p b d) (Set_docker_instructions v) = PythonContainer e p b v"
| "assign (Container p) (Set_image_path v) = Container v"
| "assign (Binary p r) (Set_path v) = Binary v r"
| "assign (Binary p r) (Set_dependencies v) = Binary p v"
| "assign (BazelContainer l) (Set_label v) = BazelContainer v"
| "assign (BazelBinary l r) (Set_label v) = BazelBinary v r"
| "assign (BazelBinary l r) (Set_dependencies v) = BazelBinary l v"
| "assign s u = s"

definition setattr :: "ref \<Rightarrow> assignment \<Rightarrow> 'd heap \<Rightarrow> error + 'd heap" where
  "setattr a u h =
     (case get_obj h a of
        None \<Rightarrow> Inl InvalidReference
      | Some s \<Rightarrow>
          if frozen (class_options s) then Inl FrozenInstanceError
          else Inr (h\<lparr>objects := (objects h)[a := assign s u]\<rparr>))"

section \<open>Properties of the name derivation\<close>

subsection \<open>Auxiliary facts\<close>

lemma rfind_neg_iff: "rfind p c < 0 \<longleftrightarrow> c \<notin> set p"
  by (induction p) (auto simp: Let_def)

lemma rfind_ge: "- 1 \<le> rfind p c"
  by (induction p) (auto simp: Let_def)

lemma drop_rfind: "drop (nat (rfind p c + 1)) p = rev (takeWhile (\<lambda>x. x \<noteq> c) (rev p))"
proof (induction p)
  case Nil
  show ?case by simp
next
  case (Cons x xs)
  show ?case
  proof (cases "0 \<le> rfind xs c")
    case True
    then have mem: "c \<in> set xs" using rfind_neg_iff [of xs c] by simp
    from True have "nat (rfind xs c + 1 + 1) = Suc (nat (rfind xs c + 1))" by simp
    with True mem Cons show ?thesis
      by (simp add: Let_def takeWhile_append1 [where x = c])
  next
    case False
    then have nomem: "c \<notin> set xs" using rfind_neg_iff [of xs c] by simp
    then have all: "\<forall>y\<in>set (rev xs). y \<noteq> c" by auto
    have "takeWhile (\<lambda>y. y \<noteq> c) (rev xs @ [x]) = rev xs @ takeWhile (\<lambda>y. y \<noteq> c) [x]"
      using all by (intro takeWhile_append2) simp
    with False show ?thesis
      by (simp add: Let_def)
  qed
qed

lemma basename_takeWhile: "basename p = rev (takeWhile (\<lambda>x. x \<noteq> 47) (rev p))"
  by (simp add: basename_def Let_def drop_rfind)

lemma rstrip_os_sep: "rstrip p os_sep = strip_trailing_sep p"
  by (simp add: rstrip_def os_sep_def strip_trailing_sep_def)

lemma basename_rstrip: "basename (rstrip p os_sep) = final_component p"
  by (simp add: basename_takeWhile rstrip_os_sep final_component_def)

lemma re_sub_W_map: "re_sub_W uni [95] s = map (\<lambda>c. if is_word uni c then c else 95) s"
  by (induction s) simp_all

lemma name_from_path_map:
  "name_from_path uni p = map (\<lambda>c. if is_word uni c then c else 95) (final_component p)"
  by (simp add: name_from_path_def basename_rstrip re_sub_W_map)

lemma dropWhile_replicate_append:
  "dropWhile (\<lambda>c. c = a) (replicate n a @ xs) = dropWhile (\<lambda>c. c = a) xs"
  by (induction n) simp_all

lemma strip_trailing_sep_append:
  "strip_trailing_sep (p @ replicate n 47) = strip_trailing_sep p"
  by (simp add: strip_trailing_sep_def dropWhile_replicate_append)

lemma final_component_append:
  "final_component (p @ replicate n 47) = final_component p"
  by (simp add: final_component_def strip_trailing_sep_append)

lemma takeWhile_dropWhile_Nil:
  "takeWhile (\<lambda>c. \<not> P c) (dropWhile P xs) = [] \<longleftrightarrow> dropWhile P xs = []"
  by (induction xs) auto

lemma final_component_Nil_iff: "final_component p = [] \<longleftrightarrow> list_all (\<lambda>c. c = 47) p"
proof -
  have "final_component p = [] \<longleftrightarrow> dropWhile (\<lambda>c. c = 47) (rev p) = []"
    by (simp only: final_component_def strip_trailing_sep_def rev_rev_ident rev_is_Nil_conv
          takeWhile_dropWhile_Nil)
  also have "\<dots> \<longleftrightarrow> list_all (\<lambda>c. c = 47) p"
    by (simp add: dropWhile_eq_Nil_conv list_all_iff)
  finally show ?thesis .
qed

lemma is_word_underscore: "is_word uni 95"
  by (simp add: is_word_def)

lemma is_word_ascii: "c < 128 \<Longrightarrow> is_word uni c = ascii_word c"
  by (simp add: is_word_def is_alnum_def ascii_word_def)

lemma ascii_word_lt: "ascii_word c \<Longrightarrow> c < 128"
  by (auto simp: ascii_word_def ascii_alnum_def)

lemma set_final_component: "set (final_component p) \<subseteq> set p"
proof -
  have "set (final_component p) \<subseteq> set (dropWhile (\<lambda>c. c = 47) (rev p))"
    unfolding final_component_def strip_trailing_sep_def
    using set_takeWhileD by fastforce
  also have "\<dots> \<subseteq> set p" using set_dropWhileD by fastforce
  finally show ?thesis .
qed

lemma final_component_no_sep: "47 \<notin> set p \<Longrightarrow> final_component p = p"
proof -
  assume a: "47 \<notin> set p"
  then have d: "dropWhile (\<lambda>c. c = 47) (rev p) = rev p"
    by (cases "rev p") auto
  from a have t: "takeWhile (\<lambda>c. c \<noteq> 47) (rev p) = rev p"
    by auto
  show ?thesis
    by (simp only: final_component_def strip_trailing_sep_def rev_rev_ident d t)
qed

lemma basename_no_sep: "47 \<notin> set p \<Longrightarrow> basename p = p"
proof -
  assume "47 \<notin> set p"
  then have t: "takeWhile (\<lambda>c. c \<noteq> 47) (rev p) = rev p" by auto
  show ?thesis by (simp only: basename_takeWhile t rev_rev_ident)
qed

lemma list_all_sub:
  "Q u \<Longrightarrow> list_all Q (map (\<lambda>c. if Q c then c else u) xs)"
  by (induction xs) simp_all

lemma list_all_sub_ascii:
  "list_all (\<lambda>c. c < 128) xs \<Longrightarrow> list_all ascii_word (map (\<lambda>c. if is_word uni c then c else 95) xs)"
  by (induction xs) (simp_all add: is_word_ascii ascii_word_def)

subsection \<open>The derived name, character by character\<close>

text \<open>
  C1, as the code has it: the derived name is the final path component (trailing
  slashes stripped, then everything after the last remaining slash) in which each
  character that is not a word character is replaced by one underscore. The name has
  the length of the final component: a run of non-word characters gives one underscore
  for each of its characters. So \<open>"//foo/bar:image.tar"\<close> gives \<open>"bar_image_tar"\<close>
  and \<open>"a--b"\<close> gives \<open>"a__b"\<close>.
\<close>

theorem name_from_path_per_character:
  "name_from_path uni p = map (\<lambda>c. if is_word uni c then c else 95) (final_component p)
   \<and> length (name_from_path uni p) = length (final_component p)
   \<and> name_from_path uni (str ''//foo/bar:image.tar'') = str ''bar_image_tar''
   \<and> name_from_path uni (str ''a--b'') = str ''a__b''"
proof -
  have "name_from_path uni (str ''//foo/bar:image.tar'') = str ''bar_image_tar''"
    by (simp add: name_from_path_map final_component_def strip_trailing_sep_def str_def is_word_def is_alnum_def ascii_alnum_def)
  moreover have "name_from_path uni (str ''a--b'') = str ''a__b''"
    by (simp add: name_from_path_map final_component_def strip_trailing_sep_def str_def is_word_def is_alnum_def ascii_alnum_def)
  ultimately show ?thesis by (simp add: name_from_path_map)
qed

text \<open>
  C1 as it is stated does not hold: the name of \<open>"//foo/bar:image.tar"\<close> is not
  \<open>"foo_bar_image_tar"\<close>, and on \<open>"a--b"\<close> the code differs from the rule that
  collapses a run to one underscore.
\<close>

theorem name_from_path_runs_counterexample:
  "name_from_path latin1_alnum (str ''//foo/bar:image.tar'') \<noteq> str ''foo_bar_image_tar''
   \<and> name_from_path latin1_alnum (str ''a--b'') \<noteq> spec_derive_name latin1_alnum (str ''a--b'')"
  by code_simp

subsection \<open>The characters of a derived name\<close>

text \<open>
  C3, as the code has it: every character of a derived name is a word character in
  the sense of \<open>\\w\<close>, that is an underscore or a Unicode alphanumeric; when every
  character of the input is ASCII, every character of the name is in \<open>[A-Za-z0-9_]\<close>.
\<close>

theorem name_from_path_word_chars:
  "list_all (is_word uni) (name_from_path uni p)
   \<and> (list_all (\<lambda>c. c < 128) p \<longrightarrow> list_all ascii_word (name_from_path uni p))"
proof -
  have a: "list_all (is_word uni) (name_from_path uni p)"
    unfolding name_from_path_map by (rule list_all_sub) (rule is_word_underscore)
  have b: "list_all ascii_word (name_from_path uni p)" if h: "list_all (\<lambda>c. c < 128) p"
  proof -
    have "list_all (\<lambda>c. c < 128) (final_component p)"
      using h set_final_component [of p] by (auto simp: list_all_iff)
    then show ?thesis
      unfolding name_from_path_map by (rule list_all_sub_ascii)
  qed
  from a b show ?thesis by blast
qed

text \<open>The statement above at the input \<open>"/a/b/c-d.txt"\<close>.\<close>

theorem name_from_path_word_chars_witness:
  "list_all (\<lambda>c. c < 128) (str ''/a/b/c-d.txt'')
   \<and> list_all ascii_word (name_from_path latin1_alnum (str ''/a/b/c-d.txt''))"
  using name_from_path_word_chars [of latin1_alnum "str ''/a/b/c-d.txt''"] by (simp add: str_def)

text \<open>
  C3 as it is stated does not hold: U+00E9, the letter e with an acute accent, is a
  word character for \<open>\\W\<close>, so it stays in the name, and it is not in
  \<open>[A-Za-z0-9_]\<close>.
\<close>

theorem name_from_path_non_ascii_counterexample: "name_from_path latin1_alnum [233] = [233] \<and> \<not> ascii_word 233"
  by code_simp

subsection \<open>Trailing separators\<close>

text \<open>
  C4: appending any number of separators to a string does not change its derived
  name.
\<close>

theorem name_from_path_trailing_sep:
  "name_from_path uni (p @ concat (replicate n os_sep)) = name_from_path uni p"
proof -
  have "concat (replicate n os_sep) = replicate n 47"
    by (induction n) (simp_all add: os_sep_def)
  then show ?thesis
    by (simp add: name_from_path_map final_component_append)
qed

subsection \<open>Word-character inputs\<close>

text \<open>
  C6: on a string of characters of \<open>[A-Za-z0-9_]\<close> only, the derived name is the
  basename, which is the string itself; and the name of \<open>"/a/b/c-d.txt"\<close> is
  \<open>"c_d_txt"\<close>.
\<close>

theorem name_from_path_word_identity:
  "(list_all ascii_word p \<longrightarrow> name_from_path uni p = basename p \<and> basename p = p)
   \<and> name_from_path uni (str ''/a/b/c-d.txt'') = str ''c_d_txt''"
proof -
  have a: "name_from_path uni p = basename p \<and> basename p = p" if h: "list_all ascii_word p"
  proof -
    from h have w: "\<forall>c\<in>set p. ascii_word c" by (simp add: list_all_iff)
    have "\<not> ascii_word 47" by (simp add: ascii_word_def ascii_alnum_def)
    with w have ns: "47 \<notin> set p" by blast
    then have fc: "final_component p = p" by (rule final_component_no_sep)
    from w have "\<forall>c\<in>set p. is_word uni c"
      using is_word_ascii ascii_word_lt by blast
    then have "map (\<lambda>c. if is_word uni c then c else 95) p = p"
      by (simp add: map_idI)
    with fc ns show ?thesis by (simp add: name_from_path_map basename_no_sep)
  qed
  have b: "name_from_path uni (str ''/a/b/c-d.txt'') = str ''c_d_txt''"
    by (simp add: name_from_path_map final_component_def strip_trailing_sep_def str_def is_word_def is_alnum_def ascii_alnum_def)
  from a b show ?thesis by blast
qed

text \<open>The statement above at the input \<open>"train_v2"\<close>.\<close>

theorem name_from_path_word_identity_witness:
  "list_all ascii_word (str ''train_v2'')
   \<and> name_from_path latin1_alnum (str ''train_v2'') = basename (str ''train_v2'')
   \<and> basename (str ''train_v2'') = str ''train_v2''"
  using name_from_path_word_identity [of "str ''train_v2''" latin1_alnum]
  by (simp add: str_def ascii_word_def ascii_alnum_def)

subsection \<open>Empty names\<close>

text \<open>
  C5, as the code has it: the derived name is empty exactly when the identifying
  string consists of separators only (the empty string included), and non-empty
  otherwise; so it is for the name of each of the five classes.
\<close>

theorem name_empty_iff_only_separators:
  "(name_from_path uni p = []) = list_all (\<lambda>c. c = 47) p
   \<and> (name uni (PythonContainer e p b d) = []) = list_all (\<lambda>c. c = 47) p
   \<and> (name uni (Container p) = []) = list_all (\<lambda>c. c = 47) p
   \<and> (name uni (Binary p r) = []) = list_all (\<lambda>c. c = 47) p
   \<and> (name uni (BazelContainer p) = []) = list_all (\<lambda>c. c = 47) p
   \<and> (name uni (BazelBinary p r) = []) = list_all (\<lambda>c. c = 47) p"
  by (simp add: name_from_path_map final_component_Nil_iff)

section \<open>Properties of the specifications\<close>

subsection \<open>Auxiliary facts\<close>

lemmas init_defs = PythonContainer_init_def Container_init_def Binary_init_def
  BazelContainer_init_def BazelBinary_init_def new_list_def

lemmas new_defs = new_PythonContainer_def new_Container_def new_Binary_def
  new_BazelContainer_def new_BazelBinary_def instantiate_def

lemma get_obj_append: "get_obj (h\<lparr>objects := objects h @ [s]\<rparr>) (length (objects h)) = Some s"
  by (simp add: get_obj_def)

lemma new_PythonContainer_Some:
  "new_PythonContainer gap (Some e) po bi di h =
     Inr (length (objects h),
          h\<lparr>objects := objects h @
             [PythonContainer e (gap (case po of None \<Rightarrow> str ''.'' | Some p \<Rightarrow> p))
                (case bi of None \<Rightarrow> None | Some b \<Rightarrow> b)
                (case di of None \<Rightarrow> None | Some d \<Rightarrow> d)]\<rparr>)"
  by (simp add: new_defs init_defs)

lemma new_Container_Some:
  "new_Container (Some p) h = Inr (length (objects h), h\<lparr>objects := objects h @ [Container p]\<rparr>)"
  by (simp add: new_defs init_defs)

lemma new_BazelContainer_Some:
  "new_BazelContainer (Some l) h =
     Inr (length (objects h), h\<lparr>objects := objects h @ [BazelContainer l]\<rparr>)"
  by (simp add: new_defs init_defs)

lemma new_Binary_Some:
  "new_Binary (Some p) (Some r) h =
     Inr (length (objects h), h\<lparr>objects := objects h @ [Binary p r]\<rparr>)"
  by (simp add: new_defs init_defs)

lemma new_Binary_default:
  "new_Binary (Some p) None h =
     Inr (length (objects h),
          h\<lparr>lists := lists h @ [[]], objects := objects h @ [Binary p (length (lists h))]\<rparr>)"
  by (simp add: new_defs init_defs)

lemma new_BazelBinary_Some:
  "new_BazelBinary (Some l) (Some r) h =
     Inr (length (objects h), h\<lparr>objects := objects h @ [BazelBinary l r]\<rparr>)"
  by (simp add: new_defs init_defs)

lemma new_BazelBinary_default:
  "new_BazelBinary (Some l) None h =
     Inr (length (objects h),
          h\<lparr>lists := lists h @ [[]], objects := objects h @ [BazelBinary l (length (lists h))]\<rparr>)"
  by (simp add: new_defs init_defs)

lemmas new_simps = new_PythonContainer_Some new_Container_Some new_BazelContainer_Some
  new_Binary_Some new_Binary_default new_BazelBinary_Some new_BazelBinary_default

text \<open>
  C5 as it is stated does not hold: a \<open>Container\<close> constructed with the image path
  \<open>"///"\<close> has the empty name, and so has the empty string.
\<close>

theorem empty_name_counterexample:
  "new_Container (Some (str ''///'')) (empty_heap :: unit heap)
     = Inr (0, \<lparr>lists = [], objects = [Container (str ''///'')]\<rparr>)
   \<and> read_name latin1_alnum 0 (\<lparr>lists = [], objects = [Container (str ''///'')]\<rparr> :: unit heap)
     = Inr ([], \<lparr>lists = [], objects = [Container (str ''///'')]\<rparr>)
   \<and> name_from_path latin1_alnum (str '''') = []"
  by (simp add: new_simps empty_heap_def read_name_def get_obj_def name_from_path_map
      final_component_def strip_trailing_sep_def str_def)

subsection \<open>The name of a constructed specification\<close>

text \<open>
  C2: a call of each class that gives the required argument returns an instance, and
  reading its \<open>name\<close> gives the name derivation of the identifying string: the
  stored path, which is the result of \<open>get_absolute_path\<close>, for \<open>PythonContainer\<close>,
  \<open>image_path\<close> for \<open>Container\<close>, \<open>path\<close> for \<open>Binary\<close>, and \<open>label\<close> for
  \<open>BazelContainer\<close> and \<open>BazelBinary\<close>.
\<close>

theorem name_of_constructed_spec:
  "(\<exists>a h'. new_PythonContainer gap (Some e) po bi di h = Inr (a, h')
      \<and> read_name uni a h' =
          Inr (name_from_path uni (gap (case po of None \<Rightarrow> str ''.'' | Some p \<Rightarrow> p)), h'))
   \<and> (\<exists>a h'. new_Container (Some image_path) h = Inr (a, h')
      \<and> read_name uni a h' = Inr (name_from_path uni image_path, h'))
   \<and> (\<exists>a h'. new_Binary (Some path) ds h = Inr (a, h')
      \<and> read_name uni a h' = Inr (name_from_path uni path, h'))
   \<and> (\<exists>a h'. new_BazelContainer (Some label) h = Inr (a, h')
      \<and> read_name uni a h' = Inr (name_from_path uni label, h'))
   \<and> (\<exists>a h'. new_BazelBinary (Some label) ds h = Inr (a, h')
      \<and> read_name uni a h' = Inr (name_from_path uni label, h'))"
  by (cases ds) (simp_all add: new_simps read_name_def get_obj_def)

subsection \<open>Required arguments\<close>

text \<open>
  C7: a call of any of the five classes that does not give the required argument
  (\<open>entrypoint\<close>, \<open>image_path\<close>, \<open>path\<close> or \<open>label\<close>) raises \<open>TypeError\<close>, whatever
  the other arguments and the store are, and returns no instance.
\<close>

theorem missing_required_argument_raises:
  "new_PythonContainer gap None po bi di h = Inl TypeError
   \<and> new_Container None h = Inl TypeError
   \<and> new_Binary None ds h = Inl TypeError
   \<and> new_BazelContainer None h = Inl TypeError
   \<and> new_BazelBinary None ds h = Inl TypeError"
  by (simp add: new_defs init_defs)

subsection \<open>Default dependencies\<close>

text \<open>
  C8: two instances of \<open>Binary\<close> (or of \<open>BazelBinary\<close>) constructed one after the other
  without \<open>dependencies\<close> hold two different list objects, each new at its construction
  and empty; appending to either one leaves the other empty.
\<close>

theorem default_dependencies_independent:
  "(\<exists>a1 h1 a2 h2 r1 r2.
      new_Binary (Some p1) None h = Inr (a1, h1) \<and> new_Binary (Some p2) None h1 = Inr (a2, h2)
      \<and> get_obj h2 a1 = Some (Binary p1 r1) \<and> get_obj h2 a2 = Some (Binary p2 r2)
      \<and> r1 \<noteq> r2 \<and> get_list h r1 = None \<and> get_list h1 r2 = None
      \<and> get_list h2 r1 = Some [] \<and> get_list h2 r2 = Some []
      \<and> (\<exists>h3. list_append r1 d h2 = Inr h3
            \<and> get_list h3 r1 = Some [d] \<and> get_list h3 r2 = Some [])
      \<and> (\<exists>h3. list_append r2 d h2 = Inr h3
            \<and> get_list h3 r2 = Some [d] \<and> get_list h3 r1 = Some []))
   \<and> (\<exists>a1 h1 a2 h2 r1 r2.
      new_BazelBinary (Some p1) None h = Inr (a1, h1)
      \<and> new_BazelBinary (Some p2) None h1 = Inr (a2, h2)
      \<and> get_obj h2 a1 = Some (BazelBinary p1 r1) \<and> get_obj h2 a2 = Some (BazelBinary p2 r2)
      \<and> r1 \<noteq> r2 \<and> get_list h r1 = None \<and> get_list h1 r2 = None
      \<and> get_list h2 r1 = Some [] \<and> get_list h2 r2 = Some []
      \<and> (\<exists>h3. list_append r1 d h2 = Inr h3
            \<and> get_list h3 r1 = Some [d] \<and> get_list h3 r2 = Some [])
      \<and> (\<exists>h3. list_append r2 d h2 = Inr h3
            \<and> get_list h3 r2 = Some [d] \<and> get_list h3 r1 = Some []))"
  by (simp add: new_simps get_obj_def get_list_def list_append_def nth_append)

subsection \<open>Stored attributes\<close>

text \<open>
  C9: a call of \<open>PythonContainer\<close> with an entry point, whatever the other arguments
  are and whether they are given or not, returns an instance that holds that entry
  point and, as \<open>docker_instructions\<close>, exactly the value given (\<open>None\<close> when none is
  given): nothing is added to it. So \<open>PythonContainer(entrypoint=ModuleName("pkg.main"))\<close>
  reads back \<open>ModuleName("pkg.main")\<close>, and a list of instructions given is the list
  stored.
\<close>

theorem PythonContainer_stores_verbatim:
  "(\<exists>a h'. new_PythonContainer gap (Some e) po bi di h = Inr (a, h')
      \<and> get_obj h' a =
          Some (PythonContainer e (gap (case po of None \<Rightarrow> str ''.'' | Some p \<Rightarrow> p))
                  (case bi of None \<Rightarrow> None | Some b \<Rightarrow> b)
                  (case di of None \<Rightarrow> None | Some d \<Rightarrow> d)))
   \<and> (\<exists>a h'. new_PythonContainer gap (Some (ModuleName (str ''pkg.main''))) None None None h
          = Inr (a, h')
      \<and> get_obj h' a =
          Some (PythonContainer (ModuleName (str ''pkg.main'')) (gap (str ''.'')) None None))
   \<and> (\<exists>a h'. new_PythonContainer gap (Some e) po bi (Some (Some instrs)) h = Inr (a, h')
      \<and> get_obj h' a =
          Some (PythonContainer e (gap (case po of None \<Rightarrow> str ''.'' | Some p \<Rightarrow> p))
                  (case bi of None \<Rightarrow> None | Some b \<Rightarrow> b) (Some instrs)))"
  by (simp add: new_simps get_obj_def)

subsection \<open>Mutability\<close>

text \<open>
  C10, as the code has it: the operations that the module defines leave every
  existing instance and every existing list as it is: a construction only adds to the
  store, and reading \<open>name\<close> returns the store unchanged. The instances are not
  immutable: no class is frozen, so an assignment to an attribute of an instance
  succeeds and changes that attribute.
\<close>

theorem core_operations_preserve_store:
  "(\<exists>a' h'. new_PythonContainer gap (Some e) po bi di h = Inr (a', h')
      \<and> take (length (objects h)) (objects h') = objects h
      \<and> take (length (lists h)) (lists h') = lists h)
   \<and> (\<exists>a' h'. new_Container (Some image_path) h = Inr (a', h')
      \<and> take (length (objects h)) (objects h') = objects h
      \<and> take (length (lists h)) (lists h') = lists h)
   \<and> (\<exists>a' h'. new_Binary (Some path) ds h = Inr (a', h')
      \<and> take (length (objects h)) (objects h') = objects h
      \<and> take (length (lists h)) (lists h') = lists h)
   \<and> (\<exists>a' h'. new_BazelContainer (Some label) h = Inr (a', h')
      \<and> take (length (objects h)) (objects h') = objects h
      \<and> take (length (lists h)) (lists h') = lists h)
   \<and> (\<exists>a' h'. new_BazelBinary (Some label) ds h = Inr (a', h')
      \<and> take (length (objects h)) (objects h') = objects h
      \<and> take (length (lists h)) (lists h') = lists h)
   \<and> (get_obj h a = Some s \<longrightarrow>
        read_name uni a h = Inr (name uni s, h)
        \<and> setattr a u h = Inr (h\<lparr>objects := (objects h)[a := assign s u]\<rparr>)
        \<and> get_obj (h\<lparr>objects := (objects h)[a := assign s u]\<rparr>) a = Some (assign s u))"
proof -
  have frozen: "\<not> frozen (class_options s)" for s
    by (cases s) (simp_all add: attr_s_def)
  have c: "read_name uni a h = Inr (name uni s, h)
        \<and> setattr a u h = Inr (h\<lparr>objects := (objects h)[a := assign s u]\<rparr>)
        \<and> get_obj (h\<lparr>objects := (objects h)[a := assign s u]\<rparr>) a = Some (assign s u)"
    if "get_obj h a = Some s"
    using that frozen by (simp add: read_name_def setattr_def get_obj_def split: if_splits)
  have b: "(\<exists>a' h'. new_Binary (Some path) ds h = Inr (a', h')
      \<and> take (length (objects h)) (objects h') = objects h
      \<and> take (length (lists h)) (lists h') = lists h)"
    by (cases ds) (simp_all add: new_simps)
  have bb: "(\<exists>a' h'. new_BazelBinary (Some label) ds h = Inr (a', h')
      \<and> take (length (objects h)) (objects h') = objects h
      \<and> take (length (lists h)) (lists h') = lists h)"
    by (cases ds) (simp_all add: new_simps)
  from b bb c show ?thesis by (simp add: new_simps)
qed

text \<open>The statement above on a store that holds one \<open>Binary\<close>.\<close>

theorem core_operations_preserve_store_witness:
  "get_obj (\<lparr>lists = [[]], objects = [Binary (str ''a'') 0]\<rparr> :: unit heap) 0
     = Some (Binary (str ''a'') 0)
   \<and> read_name latin1_alnum 0 (\<lparr>lists = [[]], objects = [Binary (str ''a'') 0]\<rparr> :: unit heap)
     = Inr (str ''a'', \<lparr>lists = [[]], objects = [Binary (str ''a'') 0]\<rparr>)
   \<and> setattr 0 (Set_dependencies 7) (\<lparr>lists = [[]], objects = [Binary (str ''a'') 0]\<rparr> :: unit heap)
     = Inr \<lparr>lists = [[]], objects = [Binary (str ''a'') 7]\<rparr>"
proof -
  let ?h = "\<lparr>lists = [[]], objects = [Binary (str ''a'') 0]\<rparr> :: unit heap"
  have g: "get_obj ?h 0 = Some (Binary (str ''a'') 0)" by (simp add: get_obj_def)
  have n: "name latin1_alnum (Binary (str ''a'') 0) = str ''a''"
    by (simp add: name_from_path_map final_component_def strip_trailing_sep_def str_def
        is_word_def is_alnum_def ascii_alnum_def)
  from core_operations_preserve_store [where h = ?h and a = 0 and s = "Binary (str ''a'') 0" and uni = latin1_alnum
      and u = "Set_dependencies 7"] g
  have "read_name latin1_alnum 0 ?h = Inr (name latin1_alnum (Binary (str ''a'') 0), ?h)
        \<and> setattr 0 (Set_dependencies 7) ?h
            = Inr (?h\<lparr>objects := (objects ?h)[0 := assign (Binary (str ''a'') 0) (Set_dependencies 7)]\<rparr>)"
    by blast
  with g n show ?thesis by simp
qed

text \<open>
  C10 as it is stated does not hold: after \<open>b = Binary("a")\<close>, the assignment
  \<open>b.path = "b"\<close> succeeds and the instance has another path.
\<close>

theorem setattr_changes_instance_counterexample:
  "new_Binary (Some (str ''a'')) None (empty_heap :: unit heap)
     = Inr (0, \<lparr>lists = [[]], objects = [Binary (str ''a'') 0]\<rparr>)
   \<and> setattr 0 (Set_path (str ''b'')) (\<lparr>lists = [[]], objects = [Binary (str ''a'') 0]\<rparr> :: unit heap)
     = Inr \<lparr>lists = [[]], objects = [Binary (str ''b'') 0]\<rparr>
   \<and> get_obj (\<lparr>lists = [[]], objects = [Binary (str ''b'') 0]\<rparr> :: unit heap) 0
     \<noteq> get_obj (\<lparr>lists = [[]], objects = [Binary (str ''a'') 0]\<rparr> :: unit heap) 0"
  by (simp add: new_simps empty_heap_def setattr_def get_obj_def attr_s_def str_def)

end
